theory Spec2Isabelle
  imports Complex_Main
begin

section \<open>Numbers, strings and dates of the runtime\<close>

text \<open>
  The program is JavaScript on Mongoose. A JavaScript \<^verbatim>\<open>Number\<close> is modelled as an exact
  \<^typ>\<open>real\<close>: the results below are about the arithmetic the code writes down, not about
  IEEE-754 rounding noise. \<^verbatim>\<open>Math.round\<close> rounds half-way cases towards plus infinity.
  Every monetary path of the schemas carries the setter
  \<^verbatim>\<open>set: v => Math.round(v * 100) / 100\<close>, which is \<open>round2\<close>.
\<close>

definition Math_round :: "real \<Rightarrow> int" where
  "Math_round v = \<lfloor>v + 1 / 2\<rfloor>"

definition round2 :: "real \<Rightarrow> real" where
  "round2 v = of_int (Math_round (v * 100)) / 100"

text \<open>
  \<^verbatim>\<open>trim: true\<close> of a String path strips white space at both ends
  (the ASCII white space characters; a \<^typ>\<open>char\<close> is a byte).
\<close>

definition isWhiteSpace :: "char \<Rightarrow> bool" where
  "isWhiteSpace c = (c \<in> set [CHR '' '', CHR 0x09, CHR 0x0A, CHR 0x0B, CHR 0x0C, CHR 0x0D])"

definition trim :: "string \<Rightarrow> string" where
  "trim s = rev (dropWhile isWhiteSpace (rev (dropWhile isWhiteSpace s)))"

text \<open>An ObjectId is modelled by its hexadecimal string; a Date by its time value in
  milliseconds since the epoch.\<close>

type_synonym oid = string
type_synonym date = int

section \<open>Documents and the store\<close>

text \<open>\<^verbatim>\<open>models/User.js\<close>: \<^verbatim>\<open>credit\<close> has \<^verbatim>\<open>min: 0\<close> and the rounding setter.\<close>

record user =
  uid :: oid
  username :: string
  role :: string
  credit :: real
  parent :: "oid option"

text \<open>The Transaction schema: \<^verbatim>\<open>amount\<close> has \<^verbatim>\<open>min: 0.01\<close>, \<^verbatim>\<open>type\<close> the enum
  \<^verbatim>\<open>['add', 'deduct']\<close>, \<^verbatim>\<open>description\<close> has \<^verbatim>\<open>trim\<close> and \<^verbatim>\<open>maxlength: 255\<close>;
  \<^verbatim>\<open>timestamps: true\<close> stamps \<^verbatim>\<open>createdAt\<close> on the first save.\<close>

record transaction =
  tx_user :: oid
  amount :: real
  tx_type :: string
  oldCredit :: real
  newCredit :: real
  adjustedBy :: oid
  description :: string
  createdAt :: date

text \<open>\<^verbatim>\<open>models/AgentStats.js\<close>.\<close>

record commissionEntry =
  ce_amount :: real
  ce_date :: date
  ce_description :: string

record agentStats =
  agent :: oid
  totalMembers :: nat
  activeMembers :: nat
  totalCredit :: real
  totalProfit :: real
  commissionRate :: real
  totalCommission :: real
  commissionHistory :: "commissionEntry list"
  lastUpdated :: date

text \<open>The DailyReport schema (\<^verbatim>\<open>date\<close> is \<^verbatim>\<open>unique\<close>).\<close>

record agentReport =
  ar_agent :: oid
  members :: nat
  creditMovement :: real
  commission :: real

record dailyReport =
  dr_date :: date
  dr_totalMembers :: nat
  dr_activeMembers :: nat
  totalCreditMovement :: real
  dr_totalCommission :: real
  agentReports :: "agentReport list"
  systemNotes :: string

text \<open>The four collections. A collection is a list in insertion order, which is the order
  \<^verbatim>\<open>find\<close> returns without a sort. A write that passes validation succeeds: faults of
  the storage itself are outside the model.\<close>

record db =
  users :: "user list"
  transactions :: "transaction list"
  agentStatsColl :: "agentStats list"
  dailyReports :: "dailyReport list"

text \<open>What a call can throw. A Mongoose \<^verbatim>\<open>ValidationError\<close> lists the failing paths; here
  it names the first one.\<close>

datatype error =
  InsufficientCredit
  | InvalidCreditType
  | ValidationError string

text \<open>A save of a loaded document, and \<^verbatim>\<open>findOneAndUpdate\<close>, write to the first stored
  document that matches.\<close>

fun update_first :: "('a \<Rightarrow> bool) \<Rightarrow> ('a \<Rightarrow> 'a) \<Rightarrow> 'a list \<Rightarrow> 'a list" where
  "update_first P f [] = []"
| "update_first P f (x # xs) = (if P x then f x # xs else x # update_first P f xs)"

definition findById :: "db \<Rightarrow> oid \<Rightarrow> user option" where
  "findById d i = find (\<lambda>u. uid u = i) (users d)"

definition findStats :: "db \<Rightarrow> oid \<Rightarrow> agentStats option" where
  "findStats d a = find (\<lambda>s. agent s = a) (agentStatsColl d)"

section \<open>Credit ledger: \<^verbatim>\<open>userSchema.methods.updateCredit\<close>\<close>

text \<open>
  \<^verbatim>\<open>await this.save()\<close> on a loaded user whose only modified path is \<^verbatim>\<open>credit\<close>:
  the validator \<^verbatim>\<open>min: 0\<close> runs first; then the stored document with this \<^verbatim>\<open>_id\<close> gets
  the new credit.
\<close>

definition save_user :: "db \<Rightarrow> user \<Rightarrow> error + db" where
  "save_user d u =
     (if credit u < 0 then Inl (ValidationError ''credit'')
      else Inr (d\<lparr>users :=
                  update_first (\<lambda>x. uid x = uid u) (\<lambda>x. x\<lparr>credit := credit u\<rparr>) (users d)\<rparr>))"

text \<open>\<^verbatim>\<open>new Transaction({...})\<close> runs the setters of the paths it is given;
  \<^verbatim>\<open>createdAt\<close> is only set by the save.\<close>

definition new_Transaction ::
  "oid \<Rightarrow> real \<Rightarrow> string \<Rightarrow> real \<Rightarrow> real \<Rightarrow> oid \<Rightarrow> string \<Rightarrow> transaction" where
  "new_Transaction u a ty oc nc by desc =
     \<lparr>tx_user = u, amount = round2 a, tx_type = ty, oldCredit = round2 oc, newCredit = round2 nc,
      adjustedBy = by, description = trim desc, createdAt = 0\<rparr>"

text \<open>\<^verbatim>\<open>await transaction.save()\<close>: validation of the schema, then the insert.\<close>

definition validate_transaction :: "transaction \<Rightarrow> error option" where
  "validate_transaction t =
     (if amount t < 1 / 100 then Some (ValidationError ''amount'')
      else if tx_type t \<noteq> ''add'' \<and> tx_type t \<noteq> ''deduct'' then Some (ValidationError ''type'')
      else if 255 < length (description t) then Some (ValidationError ''description'')
      else None)"

definition save_transaction :: "db \<Rightarrow> transaction \<Rightarrow> date \<Rightarrow> error + db" where
  "save_transaction d t now =
     (case validate_transaction t of
        Some e \<Rightarrow> Inl e
      | None \<Rightarrow> Inr (d\<lparr>transactions := transactions d @ [t\<lparr>createdAt := now\<rparr>]\<rparr>))"

text \<open>
  The part of \<^verbatim>\<open>updateCredit\<close> after the branch on \<^verbatim>\<open>type\<close>: save the account, build the
  transaction, save it. The two saves are separate writes: when the second one throws, the
  first one stays.
\<close>

definition updateCredit_commit ::
  "db \<Rightarrow> user \<Rightarrow> real \<Rightarrow> real \<Rightarrow> string \<Rightarrow> oid \<Rightarrow> string \<Rightarrow> date \<Rightarrow> db \<times> (error + user \<times> transaction)" where
  "updateCredit_commit d this oc a ty by desc now =
     (case save_user d this of
        Inl e \<Rightarrow> (d, Inl e)
      | Inr d1 \<Rightarrow>
          (let t = new_Transaction (uid this) a ty oc (credit this) by desc in
           case save_transaction d1 t now of
             Inl e \<Rightarrow> (d1, Inl e)
           | Inr d2 \<Rightarrow> (d2, Inr (this, t\<lparr>createdAt := now\<rparr>))))"

text \<open>
  \<^verbatim>\<open>updateCredit(amount, type, adjustedBy, description)\<close> on the loaded document \<open>this\<close>.
  The assignment \<^verbatim>\<open>this.credit += amount\<close> goes through the setter of \<^verbatim>\<open>credit\<close>.
  The result is the store after the call and either the error thrown or the pair
  \<^verbatim>\<open>{member, transaction}\<close>; when the call throws, the loaded document is dropped
  with it.
\<close>

definition updateCredit ::
  "db \<Rightarrow> user \<Rightarrow> real \<Rightarrow> string \<Rightarrow> oid \<Rightarrow> string \<Rightarrow> date \<Rightarrow> db \<times> (error + user \<times> transaction)" where
  "updateCredit d this a ty by desc now =
     (let oc = credit this in
      if ty = ''add'' then
        updateCredit_commit d (this\<lparr>credit := round2 (credit this + a)\<rparr>) oc a ty by desc now
      else if ty = ''deduct'' then
        (if credit this < a then (d, Inl InsufficientCredit)
         else updateCredit_commit d (this\<lparr>credit := round2 (credit this - a)\<rparr>) oc a ty by desc now)
      else (d, Inl InvalidCreditType))"

section \<open>Commission engine and stats aggregator: \<^verbatim>\<open>services/commissionService.js\<close>\<close>

text \<open>
  \<^verbatim>\<open>await agentStats.save()\<close>: the validators of the AgentStats schema
  (\<^verbatim>\<open>min: 0\<close> on the totals, \<^verbatim>\<open>min: 0, max: 0.2\<close> on \<^verbatim>\<open>commissionRate\<close>,
  \<^verbatim>\<open>maxlength: 255\<close> on the description of a history entry), then the write to the stored
  document of this agent.
\<close>

definition validate_agentStats :: "agentStats \<Rightarrow> error option" where
  "validate_agentStats s =
     (if totalCredit s < 0 then Some (ValidationError ''totalCredit'')
      else if totalProfit s < 0 then Some (ValidationError ''totalProfit'')
      else if commissionRate s < 0 \<or> 2 / 10 < commissionRate s
        then Some (ValidationError ''commissionRate'')
      else if totalCommission s < 0 then Some (ValidationError ''totalCommission'')
      else if list_ex (\<lambda>e. 255 < length (ce_description e)) (commissionHistory s)
        then Some (ValidationError ''commissionHistory.description'')
      else None)"

definition save_agentStats :: "db \<Rightarrow> agentStats \<Rightarrow> error + db" where
  "save_agentStats d s =
     (case validate_agentStats s of
        Some e \<Rightarrow> Inl e
      | None \<Rightarrow> Inr (d\<lparr>agentStatsColl :=
                  update_first (\<lambda>x. agent x = agent s) (\<lambda>x. s) (agentStatsColl d)\<rparr>))"

text \<open>
  \<^verbatim>\<open>calculateCommission(agentId, betAmount, description)\<close>. The whole body is inside
  \<^verbatim>\<open>try { ... } catch { return 0 }\<close>, so a failing save returns \<open>0\<close> and leaves what was
  saved before it. \<^verbatim>\<open>populate('agent')\<close> replaces the reference by the user document, or by
  null when there is none. \<^verbatim>\<open>commission\<close> is the plain product: only the setters of the
  paths it is assigned to round it. The text that
  \<^verbatim>\<open>betAmount.toLocaleString('th-TH', { minimumFractionDigits: 2 })\<close> evaluates to is the
  argument \<open>txt\<close>.
\<close>

definition calculateCommission ::
  "string \<Rightarrow> db \<Rightarrow> oid \<Rightarrow> real \<Rightarrow> string \<Rightarrow> date \<Rightarrow> db \<times> real" where
  "calculateCommission txt d agentId betAmount desc now =
     (case findStats d agentId of
        None \<Rightarrow> (d, 0)
      | Some st \<Rightarrow>
          (case findById d (agent st) of
             None \<Rightarrow> (d, 0)
           | Some ag \<Rightarrow>
               (let c = betAmount * commissionRate st in
                if c \<le> 0 then (d, 0)
                else
                  (case save_user d (ag\<lparr>credit := round2 (credit ag + c)\<rparr>) of
                     Inl e \<Rightarrow> (d, 0)
                   | Inr d1 \<Rightarrow>
                       (let st' = st\<lparr>totalCommission := round2 (totalCommission st + c),
                                     commissionHistory := commissionHistory st @
                                       [\<lparr>ce_amount = round2 c, ce_date = now,
                                         ce_description = trim (desc @ '': '' @ txt)\<rparr>]\<rparr>
                        in case save_agentStats d1 st' of
                             Inl e \<Rightarrow> (d1, 0)
                           | Inr d2 \<Rightarrow> (d2, c))))))"

text \<open>
  \<^verbatim>\<open>updateAgentStats(agentId)\<close>: two counts and one \<^verbatim>\<open>$group\<close> sum over the members of
  the agent; the aggregation returns no row when nothing matches, and
  \<^verbatim>\<open>totalCreditResult[0]?.total || 0\<close> turns that, and a zero total, into \<open>0\<close>.
  An error is caught and logged.
\<close>

definition agent_members :: "db \<Rightarrow> oid \<Rightarrow> user list" where
  "agent_members d a = filter (\<lambda>u. parent u = Some a \<and> role u = ''member'') (users d)"

definition updateAgentStats :: "db \<Rightarrow> oid \<Rightarrow> date \<Rightarrow> db" where
  "updateAgentStats d agentId now =
     (case findStats d agentId of
        None \<Rightarrow> d
      | Some st \<Rightarrow>
          (let memberCount = length (agent_members d agentId);
               activeMemberCount = length (filter (\<lambda>u. 0 < credit u) (agent_members d agentId));
               totalCreditResult =
                 (if agent_members d agentId = [] then []
                  else [sum_list (map credit (agent_members d agentId))]);
               totalCredit = (case totalCreditResult of [] \<Rightarrow> 0 | t # _ \<Rightarrow> if t = 0 then 0 else t);
               st' = st\<lparr>totalMembers := memberCount, activeMembers := activeMemberCount,
                         totalCredit := round2 totalCredit, lastUpdated := now\<rparr>
           in case save_agentStats d st' of Inl e \<Rightarrow> d | Inr d' \<Rightarrow> d'))"

section \<open>Dates\<close>

text \<open>
  The process is taken to run in UTC, with one clock reading \<open>now\<close> for a whole call.
  Time values are unbounded integers: the limit of a JavaScript Date (8.64e15 ms either side
  of the epoch) is not modelled.
  \<^verbatim>\<open>setHours(0, 0, 0, 0)\<close> is \<open>startOfDay\<close>. \<open>toISOString\<close> is
  \<^verbatim>\<open>Date.prototype.toISOString\<close>; \<open>DayFromYear\<close> and \<open>WeekDay\<close> are the functions of
  that name in the ECMAScript definition of Date.
\<close>

definition msPerDay :: int where
  "msPerDay = 86400000"

definition startOfDay :: "date \<Rightarrow> date" where
  "startOfDay t = (t div msPerDay) * msPerDay"

definition digit :: "int \<Rightarrow> char" where
  "digit n = ''0123456789'' ! nat (n mod 10)"

definition pad2 :: "int \<Rightarrow> string" where
  "pad2 n = [digit (n div 10), digit n]"

definition pad3 :: "int \<Rightarrow> string" where
  "pad3 n = digit (n div 100) # pad2 n"

definition pad4 :: "int \<Rightarrow> string" where
  "pad4 n = digit (n div 1000) # pad3 n"

definition pad6 :: "int \<Rightarrow> string" where
  "pad6 n = digit (n div 100000) # digit (n div 10000) # pad4 n"

definition yearString :: "int \<Rightarrow> string" where
  "yearString y =
     (if 0 \<le> y \<and> y \<le> 9999 then pad4 y
      else (if y < 0 then CHR ''-'' else CHR ''+'') # pad6 \<bar>y\<bar>)"

definition civil_from_days :: "int \<Rightarrow> int \<times> int \<times> int" where
  "civil_from_days z =
     (let z1 = z + 719468;
          era = z1 div 146097;
          doe = z1 - era * 146097;
          yoe = (doe - doe div 1460 + doe div 36524 - doe div 146096) div 365;
          doy = doe - (365 * yoe + yoe div 4 - yoe div 100);
          mp = (5 * doy + 2) div 153;
          d = doy - (153 * mp + 2) div 5 + 1;
          m = (if mp < 10 then mp + 3 else mp - 9);
          y = yoe + era * 400
      in (if m \<le> 2 then y + 1 else y, m, d))"

definition toISOString :: "date \<Rightarrow> string" where
  "toISOString t =
     (let (y, m, d) = civil_from_days (t div msPerDay);
          r = t mod msPerDay
      in yearString y @ ''-'' @ pad2 m @ ''-'' @ pad2 d @ ''T'' @ pad2 (r div 3600000) @ '':''
         @ pad2 (r div 60000 mod 60) @ '':'' @ pad2 (r div 1000 mod 60) @ ''.'' @ pad3 (r mod 1000)
         @ ''Z'')"




section \<open>Report scheduler: \<^verbatim>\<open>services/reportService.js\<close>\<close>

text \<open>
  \<^verbatim>\<open>User.find({...}).distinct('_id')\<close> yields ObjectId values, while
  \<^verbatim>\<open>t.user.toString()\<close> is a string. \<^verbatim>\<open>Array.prototype.includes\<close> compares with
  SameValueZero, under which an object and a string are never the same value; the two kinds of
  value are kept apart here.
\<close>

datatype jsval = ObjectId oid | JSString string

definition js_includes :: "jsval list \<Rightarrow> jsval \<Rightarrow> bool" where
  "js_includes xs v = (v \<in> set xs)"

definition distinct_member_ids :: "db \<Rightarrow> oid \<Rightarrow> jsval list" where
  "distinct_member_ids d a = map ObjectId (remdups (map uid (agent_members d a)))"

text \<open>\<^verbatim>\<open>transactions.filter(t => memberIds.includes(t.user.toString()))\<close>.\<close>

definition memberTransactions :: "jsval list \<Rightarrow> transaction list \<Rightarrow> transaction list" where
  "memberTransactions memberIds txs = filter (\<lambda>t. js_includes memberIds (JSString (tx_user t))) txs"

text \<open>
  \<^verbatim>\<open>AgentStats.findOneAndUpdate({agent}, {$inc: {totalCommission}, $set: {lastUpdated}},
  {upsert: true, new: true})\<close>: no validators run; without a match a document with the
  schema's defaults is inserted.
\<close>

definition AgentStats_findOneAndUpdate :: "db \<Rightarrow> oid \<Rightarrow> real \<Rightarrow> date \<Rightarrow> db" where
  "AgentStats_findOneAndUpdate d a c now =
     (case findStats d a of
        Some _ \<Rightarrow>
          d\<lparr>agentStatsColl :=
              update_first (\<lambda>s. agent s = a)
                (\<lambda>s. s\<lparr>totalCommission := totalCommission s + c, lastUpdated := now\<rparr>)
                (agentStatsColl d)\<rparr>
      | None \<Rightarrow>
          d\<lparr>agentStatsColl := agentStatsColl d @
              [\<lparr>agent = a, totalMembers = 0, activeMembers = 0, totalCredit = 0, totalProfit = 0,
                commissionRate = 5 / 100, totalCommission = c, commissionHistory = [],
                lastUpdated = now\<rparr>]\<rparr>)"

text \<open>The body of \<^verbatim>\<open>for (const agent of agents)\<close>: the sub-report pushed for one agent,
  then the loop, which also bumps the AgentStats of each agent. \<^verbatim>\<open>reduce\<close> is a left
  fold from \<open>0\<close>; the rate is the literal \<^verbatim>\<open>0.01\<close>.\<close>

definition loop_report :: "db \<Rightarrow> transaction list \<Rightarrow> user \<Rightarrow> agentReport" where
  "loop_report d txs ag =
     (let memberIds = distinct_member_ids d (uid ag);
          mts = memberTransactions memberIds txs;
          cm = foldl (\<lambda>sum t. sum + amount t) 0 mts;
          c = cm * (1 / 100)
      in \<lparr>ar_agent = uid ag, members = length memberIds, creditMovement = cm, commission = c\<rparr>)"

fun agentLoop ::
  "transaction list \<Rightarrow> date \<Rightarrow> user list \<Rightarrow> db \<Rightarrow> agentReport list \<Rightarrow> db \<times> agentReport list" where
  "agentLoop txs now [] d reports = (d, reports)"
| "agentLoop txs now (ag # rest) d reports =
     (let r = loop_report d txs ag
      in agentLoop txs now rest (AgentStats_findOneAndUpdate d (uid ag) (commission r) now)
           (reports @ [r]))"

text \<open>Casting the update of a DailyReport runs the setters of its monetary paths.\<close>

definition cast_agentReport :: "agentReport \<Rightarrow> agentReport" where
  "cast_agentReport r = r\<lparr>creditMovement := round2 (creditMovement r), commission := round2 (commission r)\<rparr>"

text \<open>\<^verbatim>\<open>DailyReport.findOneAndUpdate({date}, {...}, {upsert: true, new: true})\<close>: every
  modelled path is in the update, so a match is overwritten and no match inserts.\<close>

definition DailyReport_findOneAndUpdate :: "db \<Rightarrow> dailyReport \<Rightarrow> db" where
  "DailyReport_findOneAndUpdate d r =
     (if list_ex (\<lambda>x. dr_date x = dr_date r) (dailyReports d)
      then d\<lparr>dailyReports := update_first (\<lambda>x. dr_date x = dr_date r) (\<lambda>x. r) (dailyReports d)\<rparr>
      else d\<lparr>dailyReports := dailyReports d @ [r]\<rparr>)"

text \<open>
  The callback of \<^verbatim>\<open>cron.schedule('0 0 * * *', ...)\<close>, the daily run, at clock reading
  \<open>now\<close>. It returns the store and the report written. \<open>day_transactions\<close> is
  \<^verbatim>\<open>Transaction.find({createdAt: {$gte: yesterday, $lt: today}})\<close>.
\<close>

definition yesterday :: "date \<Rightarrow> date" where
  "yesterday now = startOfDay (now - msPerDay)"

definition day_transactions :: "db \<Rightarrow> date \<Rightarrow> transaction list" where
  "day_transactions d now =
     filter (\<lambda>t. yesterday now \<le> createdAt t \<and> createdAt t < startOfDay now) (transactions d)"

definition runDaily :: "db \<Rightarrow> date \<Rightarrow> db \<times> dailyReport" where
  "runDaily d now =
     (let txs = day_transactions d now;
          agents = filter (\<lambda>u. role u = ''agent'') (users d);
          tcm = foldl (\<lambda>sum t. sum + amount t) 0 txs;
          (d1, reports) = agentLoop txs now agents d [];
          tm = length (filter (\<lambda>u. role u = ''member'') (users d1));
          am = length (filter (\<lambda>u. role u = ''member'' \<and> 0 < credit u) (users d1));
          tc = foldl (\<lambda>sum r. sum + commission r) 0 reports;
          report = \<lparr>dr_date = yesterday now, dr_totalMembers = tm, dr_activeMembers = am,
                    totalCreditMovement = round2 tcm, dr_totalCommission = round2 tc,
                    agentReports = map cast_agentReport reports,
                    systemNotes = ''Auto-generated report by system at '' @ toISOString now\<rparr>
      in (DailyReport_findOneAndUpdate d1 report, report))"









section \<open>Predicates and examples used in the results\<close>

text \<open>The balance invariant of the data model: no stored account has a negative credit.\<close>

definition credits_nonneg :: "db \<Rightarrow> bool" where
  "credits_nonneg d = list_all (\<lambda>u. 0 \<le> credit u) (users d)"

text \<open>An AgentStats document with the four paths that \<^verbatim>\<open>updateAgentStats\<close> assigns blanked
  out: two documents agree on every other path exactly when their images agree.\<close>

definition unwritten :: "agentStats \<Rightarrow> agentStats" where
  "unwritten s = s\<lparr>totalMembers := 0, activeMembers := 0, totalCredit := 0, lastUpdated := 0\<rparr>"



text \<open>
  The scenario of the specification: agent A with commission rate 0.05 and balance 100.00,
  member M of A with balance 50.00. \<open>deducted_db\<close> is the store after M was deducted 10.00
  on 2 November 2026; \<open>reported_db\<close> holds two daily reports of the week of that day.
\<close>

abbreviation scenario_agent :: user where
  "scenario_agent \<equiv>
     \<lparr>uid = ''a1'', username = ''agent1'', role = ''agent'', credit = 100, parent = None\<rparr>"

abbreviation scenario_member :: user where
  "scenario_member \<equiv>
     \<lparr>uid = ''m1'', username = ''member1'', role = ''member'', credit = 50, parent = Some ''a1''\<rparr>"

abbreviation scenario_stats :: agentStats where
  "scenario_stats \<equiv>
     \<lparr>agent = ''a1'', totalMembers = 0, activeMembers = 0, totalCredit = 0, totalProfit = 0,
      commissionRate = 5 / 100, totalCommission = 0, commissionHistory = [], lastUpdated = 0\<rparr>"

abbreviation scenario_db :: db where
  "scenario_db \<equiv>
     \<lparr>users = [scenario_agent, scenario_member], transactions = [],
      agentStatsColl = [scenario_stats], dailyReports = []\<rparr>"

abbreviation deducted_db :: db where
  "deducted_db \<equiv>
     \<lparr>users = [scenario_agent, scenario_member\<lparr>credit := 40\<rparr>],
      transactions = [\<lparr>tx_user = ''m1'', amount = 10, tx_type = ''deduct'', oldCredit = 50,
         newCredit = 40, adjustedBy = ''a1'', description = ''refund by agent1'',
         createdAt = 1793629845123\<rparr>],
      agentStatsColl = [scenario_stats], dailyReports = []\<rparr>"


section \<open>Auxiliary facts\<close>

subsection \<open>Rounding\<close>


lemma round2_cents: "round2 (of_int k / 100) = of_int k / 100"
  by (simp add: round2_def Math_round_def)

lemma round2_idem: "round2 (round2 x) = round2 x"
  unfolding round2_def[of "round2 x"] by (simp add: round2_def Math_round_def)

lemma round2_fixed_iff: "round2 x = x \<longleftrightarrow> (\<exists>k::int. x = of_int k / 100)"
  by (metis round2_cents round2_def)

lemma round2_add: "round2 x = x \<Longrightarrow> round2 y = y \<Longrightarrow> round2 (x + y) = x + y"
proof -
  assume "round2 x = x" "round2 y = y"
  then obtain k l :: int where "x = of_int k / 100" "y = of_int l / 100"
    by (auto simp: round2_fixed_iff)
  then have "x + y = of_int (k + l) / 100" by simp
  then show ?thesis by (simp only: round2_cents)
qed

lemma round2_diff: "round2 x = x \<Longrightarrow> round2 y = y \<Longrightarrow> round2 (x - y) = x - y"
proof -
  assume "round2 x = x" "round2 y = y"
  then obtain k l :: int where "x = of_int k / 100" "y = of_int l / 100"
    by (auto simp: round2_fixed_iff)
  then have "x - y = of_int (k - l) / 100" by (simp add: diff_divide_distrib)
  then show ?thesis by (simp only: round2_cents)
qed

lemma foldl_plus_sum_list: "foldl (\<lambda>s x. s + f x) a xs = a + sum_list (map f xs)"
  for a :: real
  by (induction xs arbitrary: a) simp_all

lemma trim_unchanged:
  assumes "s \<noteq> []" and "\<not> isWhiteSpace (hd s)" and "\<not> isWhiteSpace (last s)"
  shows "trim s = s"
proof -
  have "dropWhile isWhiteSpace s = s"
    using assms(2) by (simp add: dropWhile_eq_self_iff)
  moreover have "dropWhile isWhiteSpace (rev s) = rev s"
    using assms(1,3) by (simp add: dropWhile_eq_self_iff hd_rev)
  ultimately show ?thesis by (simp add: trim_def)
qed

subsection \<open>Writing to the first match\<close>


lemma list_all_update_first:
  "list_all Q xs \<Longrightarrow> (\<And>x. P x \<Longrightarrow> Q x \<Longrightarrow> Q (f x)) \<Longrightarrow> list_all Q (update_first P f xs)"
  by (induction xs) auto

lemma map_update_first:
  "(\<And>x. P x \<Longrightarrow> g (f x) = g x) \<Longrightarrow> map g (update_first P f xs) = map g xs"
  by (induction xs) auto

lemma map_update_first_found:
  "find P xs = Some x \<Longrightarrow> g y = g x \<Longrightarrow> map g (update_first P (\<lambda>_. y) xs) = map g xs"
  by (induction xs) (auto split: if_splits)

lemma filter_update_first_found:
  "(\<And>x. P x \<Longrightarrow> \<not> Q x) \<Longrightarrow> \<not> Q y \<Longrightarrow> filter Q (update_first P (\<lambda>_. y) xs) = filter Q xs"
  by (induction xs) auto

lemma filter_update_first_key:
  assumes "distinct (map g xs)" and "\<exists>x\<in>set xs. g x = g r"
  shows "filter (\<lambda>x. g x = g r) (update_first (\<lambda>x. g x = g r) (\<lambda>x. r) xs) = [r]"
  using assms
proof (induction xs)
  case Nil
  then show ?case by simp
next
  case (Cons x xs)
  show ?case
  proof (cases "g x = g r")
    case True
    with Cons.prems(1) have "g r \<notin> g ` set xs" by simp
    then have "\<forall>y\<in>set xs. g y \<noteq> g r" by (metis imageI)
    then have "filter (\<lambda>y. g y = g r) xs = []" by (simp add: filter_empty_conv)
    with True show ?thesis by simp
  next
    case False
    with Cons show ?thesis by simp
  qed
qed

lemma findStats_agent: "findStats d a = Some st \<Longrightarrow> agent st = a"
  by (auto simp: findStats_def find_Some_iff)


subsection \<open>What the saves change\<close>

lemma save_user_nonneg:
  assumes "credits_nonneg d" and "save_user d u = Inr d'"
  shows "credits_nonneg d'"
proof -
  from assms(2) have c: "0 \<le> credit u"
    and d': "d' = d\<lparr>users := update_first (\<lambda>x. uid x = uid u) (\<lambda>x. x\<lparr>credit := credit u\<rparr>) (users d)\<rparr>"
    by (auto simp: save_user_def split: if_splits)
  show ?thesis using assms(1) c unfolding d' credits_nonneg_def
    by (auto intro: list_all_update_first)
qed

lemma save_transaction_users: "save_transaction d t now = Inr d' \<Longrightarrow> users d' = users d"
  by (auto simp: save_transaction_def split: option.splits)

lemma save_agentStats_users: "save_agentStats d s = Inr d' \<Longrightarrow> users d' = users d"
  by (auto simp: save_agentStats_def split: option.splits)




lemma save_agentStats_frame:
  assumes "findStats d a = Some st" and "agent s = a" and "unwritten s = unwritten st"
    and "save_agentStats d s = Inr d'"
  shows "map unwritten (agentStatsColl d') = map unwritten (agentStatsColl d) \<and>
         filter (\<lambda>x. agent x \<noteq> a) (agentStatsColl d') = filter (\<lambda>x. agent x \<noteq> a) (agentStatsColl d) \<and>
         users d' = users d \<and> transactions d' = transactions d \<and> dailyReports d' = dailyReports d"
proof -
  from assms(4)
  have d': "d' = d\<lparr>agentStatsColl := update_first (\<lambda>x. agent x = a) (\<lambda>x. s) (agentStatsColl d)\<rparr>"
    by (auto simp: save_agentStats_def assms(2) split: option.splits)
  from assms(1) have f: "find (\<lambda>x. agent x = a) (agentStatsColl d) = Some st"
    by (simp add: findStats_def)
  show ?thesis
    using map_update_first_found[OF f, of unwritten s] assms(2,3)
    by (simp add: d' filter_update_first_found)
qed

lemma updateAgentStats_writes:
  "map unwritten (agentStatsColl (updateAgentStats d a now)) = map unwritten (agentStatsColl d) \<and>
   filter (\<lambda>x. agent x \<noteq> a) (agentStatsColl (updateAgentStats d a now))
     = filter (\<lambda>x. agent x \<noteq> a) (agentStatsColl d) \<and>
   users (updateAgentStats d a now) = users d \<and>
   transactions (updateAgentStats d a now) = transactions d \<and>
   dailyReports (updateAgentStats d a now) = dailyReports d"
proof (cases "findStats d a")
  case None
  then show ?thesis by (simp add: updateAgentStats_def)
next
  case (Some st)
  define s where "s = st\<lparr>totalMembers := length (agent_members d a),
      activeMembers := length (filter (\<lambda>u. 0 < credit u) (agent_members d a)),
      totalCredit := round2 (case (if agent_members d a = [] then []
                  else [sum_list (map credit (agent_members d a))]) of
                    [] \<Rightarrow> 0 | t # _ \<Rightarrow> if t = 0 then 0 else t),
      lastUpdated := now\<rparr>"
  have u: "updateAgentStats d a now = (case save_agentStats d s of Inl e \<Rightarrow> d | Inr d' \<Rightarrow> d')"
    by (simp add: updateAgentStats_def Some s_def Let_def)
  have s: "agent s = a" "unwritten s = unwritten st"
    using findStats_agent[OF Some] by (simp_all add: s_def unwritten_def)
  show ?thesis
  proof (cases "save_agentStats d s")
    case (Inl e)
    then show ?thesis by (simp add: u)
  next
    case (Inr d')
    from save_agentStats_frame[OF Some s Inr] show ?thesis by (simp add: u Inr)
  qed
qed

subsection \<open>The ledger\<close>

text \<open>A call of \<^verbatim>\<open>updateCredit\<close> that returns has moved the balance by the amount, rounded
  by the setter, and appended one transaction that carries the balance before and after.\<close>

lemma updateCredit_success:
  assumes "updateCredit d this a ty by desc now = (d', Inr (m, t))"
  shows "(ty = ''add'' \<and> credit m = round2 (credit this + a) \<or>
          ty = ''deduct'' \<and> credit m = round2 (credit this - a)) \<and>
         transactions d' = transactions d @ [t] \<and>
         oldCredit t = round2 (credit this) \<and> newCredit t = credit m \<and>
         users d' = update_first (\<lambda>x. uid x = uid this) (\<lambda>x. x\<lparr>credit := credit m\<rparr>) (users d)"
  using assms
  by (auto simp: updateCredit_def updateCredit_commit_def save_user_def save_transaction_def
      new_Transaction_def round2_idem Let_def split: if_splits sum.splits option.splits)

lemma updateCredit_success_exact:
  assumes "updateCredit d this a ty by desc now = (d', Inr (m, t))"
    and "round2 (credit this) = credit this" and "round2 a = a"
  shows "(ty = ''add'' \<and> credit m = credit this + a \<or>
          ty = ''deduct'' \<and> credit m = credit this - a) \<and>
         oldCredit t = credit this \<and> newCredit t = credit m"
  using updateCredit_success[OF assms(1)] assms(2,3) by (auto simp: round2_add round2_diff)

lemma updateCredit_commit_nonneg:
  assumes "credits_nonneg d"
  shows "credits_nonneg (fst (updateCredit_commit d this oc a ty by desc now))"
proof (cases "save_user d this")
  case (Inl e)
  then show ?thesis using assms by (simp add: updateCredit_commit_def)
next
  case (Inr d1)
  then have d1: "credits_nonneg d1" using assms save_user_nonneg by blast
  show ?thesis
  proof (cases "save_transaction d1 (new_Transaction (uid this) a ty oc (credit this) by desc) now")
    case (Inl e)
    then show ?thesis using d1 Inr by (simp add: updateCredit_commit_def)
  next
    case (Inr d2)
    then have "users d2 = users d1" by (rule save_transaction_users)
    then show ?thesis using d1 Inr \<open>save_user d this = Inr d1\<close>
      by (simp add: updateCredit_commit_def credits_nonneg_def)
  qed
qed

lemma updateCredit_nonneg:
  "credits_nonneg d \<Longrightarrow> credits_nonneg (fst (updateCredit d this a ty by desc now))"
  by (simp add: updateCredit_def updateCredit_commit_nonneg Let_def)

subsection \<open>The commission engine\<close>

lemma calculateCommission_nonneg:
  assumes "credits_nonneg d"
  shows "credits_nonneg (fst (calculateCommission txt d agentId b desc now))"
proof -
  have *: "credits_nonneg (fst (case save_user d u of Inl e \<Rightarrow> (d, 0::real)
       | Inr d1 \<Rightarrow> (case save_agentStats d1 s of Inl e \<Rightarrow> (d1, 0) | Inr d2 \<Rightarrow> (d2, c))))" for u s c
  proof (cases "save_user d u")
    case (Inl e)
    then show ?thesis using assms by simp
  next
    case (Inr d1)
    then have d1: "credits_nonneg d1" using assms save_user_nonneg by blast
    show ?thesis
    proof (cases "save_agentStats d1 s")
      case (Inl e)
      then show ?thesis using d1 Inr by simp
    next
      case (Inr d2)
      then have "users d2 = users d1" by (rule save_agentStats_users)
      then show ?thesis using d1 Inr \<open>save_user d u = Inr d1\<close> by (simp add: credits_nonneg_def)
    qed
  qed
  show ?thesis
    unfolding calculateCommission_def Let_def
    using assms by (auto split: option.splits intro: *)
qed

subsection \<open>The daily run\<close>

lemma AgentStats_findOneAndUpdate_frame:
  "users (AgentStats_findOneAndUpdate d a c now) = users d"
  "transactions (AgentStats_findOneAndUpdate d a c now) = transactions d"
  "dailyReports (AgentStats_findOneAndUpdate d a c now) = dailyReports d"
  by (simp_all add: AgentStats_findOneAndUpdate_def split: option.splits)

lemma loop_report_cong: "users d = users d' \<Longrightarrow> loop_report d txs ag = loop_report d' txs ag"
  by (simp add: loop_report_def distinct_member_ids_def agent_members_def)

text \<open>The loop over the agents leaves accounts, transactions and reports alone and pushes one
  sub-report per agent, in order.\<close>

lemma agentLoop_frame:
  "users (fst (agentLoop txs now ags d reps)) = users d \<and>
   transactions (fst (agentLoop txs now ags d reps)) = transactions d \<and>
   dailyReports (fst (agentLoop txs now ags d reps)) = dailyReports d \<and>
   snd (agentLoop txs now ags d reps) = reps @ map (loop_report d txs) ags"
proof (induction ags arbitrary: d reps)
  case Nil
  then show ?case by simp
next
  case (Cons ag ags)
  let ?d = "AgentStats_findOneAndUpdate d (uid ag) (commission (loop_report d txs ag)) now"
  have "loop_report ?d txs = loop_report d txs"
    by (rule ext, rule loop_report_cong) (simp add: AgentStats_findOneAndUpdate_frame)
  with Cons[of ?d "reps @ [loop_report d txs ag]"] show ?case
    by (simp add: AgentStats_findOneAndUpdate_frame Let_def)
qed

lemma runDaily_frame:
  "users (fst (runDaily d now)) = users d \<and> transactions (fst (runDaily d now)) = transactions d"
  using agentLoop_frame[of "day_transactions d now" now "filter (\<lambda>u. role u = ''agent'') (users d)" d "[]"]
  by (simp add: runDaily_def Let_def DailyReport_findOneAndUpdate_def case_prod_beta)

lemma runDaily_report:
  "snd (runDaily d now) =
     \<lparr>dr_date = yesterday now,
      dr_totalMembers = length (filter (\<lambda>u. role u = ''member'') (users d)),
      dr_activeMembers = length (filter (\<lambda>u. role u = ''member'' \<and> 0 < credit u) (users d)),
      totalCreditMovement = round2 (sum_list (map amount (day_transactions d now))),
      dr_totalCommission = round2 (sum_list (map commission
         (map (loop_report d (day_transactions d now)) (filter (\<lambda>u. role u = ''agent'') (users d))))),
      agentReports = map cast_agentReport
         (map (loop_report d (day_transactions d now)) (filter (\<lambda>u. role u = ''agent'') (users d))),
      systemNotes = ''Auto-generated report by system at '' @ toISOString now\<rparr>"
  using agentLoop_frame[of "day_transactions d now" now "filter (\<lambda>u. role u = ''agent'') (users d)" d "[]"]
  by (simp add: runDaily_def Let_def case_prod_beta foldl_plus_sum_list)

lemma runDaily_store:
  "fst (runDaily d now) =
     DailyReport_findOneAndUpdate
       (fst (agentLoop (day_transactions d now) now (filter (\<lambda>u. role u = ''agent'') (users d)) d []))
       (snd (runDaily d now))"
  by (simp add: runDaily_def Let_def case_prod_beta)

lemma yesterday_startOfDay: "yesterday now = startOfDay now - msPerDay"
proof -
  have "(now - msPerDay) div msPerDay = now div msPerDay - 1"
    by (simp add: msPerDay_def)
  then show ?thesis
    by (simp only: yesterday_def startOfDay_def left_diff_distrib mult_1)
qed

lemma upsert_exactly_one:
  assumes "distinct (map dr_date (dailyReports d))"
  shows "filter (\<lambda>x. dr_date x = dr_date r) (dailyReports (DailyReport_findOneAndUpdate d r)) = [r] \<and>
         distinct (map dr_date (dailyReports (DailyReport_findOneAndUpdate d r)))"
proof (cases "list_ex (\<lambda>x. dr_date x = dr_date r) (dailyReports d)")
  case True
  then have "\<exists>x\<in>set (dailyReports d). dr_date x = dr_date r" by (simp add: list_ex_iff)
  moreover have "map dr_date (update_first (\<lambda>x. dr_date x = dr_date r) (\<lambda>x. r) (dailyReports d))
      = map dr_date (dailyReports d)"
    by (rule map_update_first) simp
  ultimately show ?thesis
    using filter_update_first_key[OF assms, of r] True assms
    by (simp add: DailyReport_findOneAndUpdate_def)
next
  case False
  then have "\<forall>x\<in>set (dailyReports d). dr_date x \<noteq> dr_date r" by (simp add: list_ex_iff)
  then have "filter (\<lambda>x. dr_date x = dr_date r) (dailyReports d) = []"
    and "dr_date r \<notin> set (map dr_date (dailyReports d))"
    by (auto simp: filter_empty_conv)
  with False assms show ?thesis
    by (simp add: DailyReport_findOneAndUpdate_def)
qed

text \<open>The member filter of the daily run compares ObjectIds with a string and so retains no
  transaction, whatever the store holds.\<close>

lemma member_filter_retains_nothing:
  "memberTransactions (distinct_member_ids d a) txs = []"
  by (auto simp: memberTransactions_def distinct_member_ids_def js_includes_def filter_empty_conv)

lemma toISOString_differs: "toISOString 1793716245123 \<noteq> toISOString 1793716246123"
  by code_simp




section \<open>The ledger: C1, C2, C10, C3\<close>

text \<open>
  C1. An adjust call that succeeds leaves the balance at the prior balance plus or minus the
  amount, exact to 2 decimals, with exactly one Transaction whose \<^verbatim>\<open>oldCredit\<close> and
  \<^verbatim>\<open>newCredit\<close> are that pair (\<open>updateCredit_success\<close>, \<open>updateCredit_success_exact\<close>);
  on failure the balance and the transaction log are to be unchanged. The code saves the
  account and only then saves the transaction. The route accepts a description of up to 255
  characters and appends \<^verbatim>\<open>by <username>\<close> to it, and the Transaction schema rejects a
  description longer than 255: for member M with balance 50.00, an \<^verbatim>\<open>add\<close> of 10.00 with
  a description of 250 characters plus \<^verbatim>\<open>by agent1\<close> throws a validation error after the
  balance 60.00 has been stored, and no transaction is written.
\<close>

theorem updateCredit_fails_after_balance_saved:
  "updateCredit scenario_db scenario_member 10 ''add'' ''a1''
     (replicate 250 (CHR ''x'') @ '' by agent1'') 1793629845123
   = (scenario_db\<lparr>users := [scenario_agent, scenario_member\<lparr>credit := 60\<rparr>]\<rparr>,
      Inl (ValidationError ''description''))"
proof -
  have "trim (replicate 250 (CHR ''x'') @ '' by agent1'') = replicate 250 (CHR ''x'') @ '' by agent1''"
    by (rule trim_unchanged) (simp_all add: isWhiteSpace_def hd_append)
  then show ?thesis
    by (simp add: updateCredit_def updateCredit_commit_def save_user_def save_transaction_def
        validate_transaction_def new_Transaction_def round2_def Math_round_def)
qed

text \<open>
  C2. For every account whose balance is strictly less than the requested amount, a
  \<^verbatim>\<open>deduct\<close> fails with the insufficient-credit error, and the store (every balance and
  the transaction log) is the store before the call: no Transaction is written.
\<close>

theorem deduct_insufficient_fails_unchanged:
  assumes "credit this < a"
  shows "updateCredit d this a ''deduct'' by desc now = (d, Inl InsufficientCredit)"
  using assms by (simp add: updateCredit_def)

theorem deduct_insufficient_fails_unchanged_witness:
  "updateCredit scenario_db scenario_member (5001 / 100) ''deduct'' ''a1''
     ''Manual credit adjustment by agent1'' 1793629845123
   = (scenario_db, Inl InsufficientCredit)"
  by (rule deduct_insufficient_fails_unchanged) simp

text \<open>
  C10. For every direction other than \<^verbatim>\<open>'add'\<close> and \<^verbatim>\<open>'deduct'\<close>, \<^verbatim>\<open>updateCredit\<close>
  throws the invalid-type error before any save: the store, and with it the balance and the
  transaction log, is unchanged.
\<close>

theorem invalid_type_fails_unchanged:
  assumes "ty \<noteq> ''add''" and "ty \<noteq> ''deduct''"
  shows "updateCredit d this a ty by desc now = (d, Inl InvalidCreditType)"
  using assms by (simp add: updateCredit_def)

theorem invalid_type_fails_unchanged_witness:
  "updateCredit scenario_db scenario_member 10 ''refund'' ''a1''
     ''Manual credit adjustment by agent1'' 1793629845123
   = (scenario_db, Inl InvalidCreditType)"
  by (rule invalid_type_fails_unchanged) simp_all

text \<open>
  C3. The balance of every account is non-negative at all times: from a store in which no
  account has a negative credit, each of the four core operations (adjust, applyCommission,
  recompute, the daily run) leads to a store in which no account has a negative credit,
  whether the operation succeeds or fails. New accounts start at the default \<open>0\<close>.
\<close>

theorem balances_stay_nonneg:
  assumes "credits_nonneg d"
  shows "credits_nonneg (fst (updateCredit d this a ty by desc now)) \<and>
         credits_nonneg (fst (calculateCommission txt d agentId b desc' now)) \<and>
         credits_nonneg (updateAgentStats d agentId now) \<and>
         credits_nonneg (fst (runDaily d now))"
proof -
  have "users (updateAgentStats d agentId now) = users d"
    using updateAgentStats_writes[of d agentId now] by simp
  moreover have "users (fst (runDaily d now)) = users d"
    using runDaily_frame[of d now] by simp
  ultimately show ?thesis
    using assms updateCredit_nonneg calculateCommission_nonneg
    by (simp add: credits_nonneg_def)
qed

theorem balances_stay_nonneg_witness:
  "credits_nonneg scenario_db \<and>
   credits_nonneg (fst (updateCredit scenario_db scenario_member 40 ''add'' ''a1''
      ''Manual credit adjustment by agent1'' 1793629845123)) \<and>
   credits_nonneg (fst (calculateCommission ''0.40'' scenario_db ''a1'' (40 / 100)
      ''Manual credit adjustment for member1'' 1793629845123)) \<and>
   credits_nonneg (updateAgentStats scenario_db ''a1'' 1793629845123) \<and>
   credits_nonneg (fst (runDaily scenario_db 1793629845123))"
proof -
  have "credits_nonneg scenario_db" by (simp add: credits_nonneg_def)
  from this balances_stay_nonneg[OF this] show ?thesis by simp
qed

section \<open>The commission engine and the stats aggregator: C4, C5, C8\<close>




text \<open>
  C5. For every agent id without an AgentStats record, \<^verbatim>\<open>calculateCommission\<close> returns
  \<open>0\<close> and leaves the whole store (accounts, stats, histories) as it was; the function has
  no error result, so nothing is raised to the caller.
\<close>

theorem commission_without_stats_is_noop:
  assumes "findStats d agentId = None"
  shows "calculateCommission txt d agentId b desc now = (d, 0)"
  using assms by (simp add: calculateCommission_def)

theorem commission_without_stats_is_noop_witness:
  "calculateCommission ''0.40'' (scenario_db\<lparr>agentStatsColl := []\<rparr>) ''a1'' (40 / 100)
     ''Manual credit adjustment for member1'' 1793629845123
   = (scenario_db\<lparr>agentStatsColl := []\<rparr>, 0)"
  by (rule commission_without_stats_is_noop) (simp add: findStats_def)

text \<open>
  C8. \<^verbatim>\<open>updateAgentStats\<close> writes only \<^verbatim>\<open>totalMembers\<close>, \<^verbatim>\<open>activeMembers\<close>,
  \<^verbatim>\<open>totalCredit\<close> and \<^verbatim>\<open>lastUpdated\<close>, and only on the record of the agent it is
  called for: with these four paths blanked out the AgentStats collection is the same before
  and after, so \<^verbatim>\<open>commissionRate\<close>, \<^verbatim>\<open>totalCommission\<close> and \<^verbatim>\<open>commissionHistory\<close> of
  every record are unchanged; the records of other agents, the accounts, the transactions and
  the daily reports are unchanged altogether.
\<close>

theorem updateAgentStats_frame:
  "map unwritten (agentStatsColl (updateAgentStats d a now)) = map unwritten (agentStatsColl d) \<and>
   map (\<lambda>s. (commissionRate s, totalCommission s, commissionHistory s))
       (agentStatsColl (updateAgentStats d a now))
     = map (\<lambda>s. (commissionRate s, totalCommission s, commissionHistory s)) (agentStatsColl d) \<and>
   filter (\<lambda>x. agent x \<noteq> a) (agentStatsColl (updateAgentStats d a now))
     = filter (\<lambda>x. agent x \<noteq> a) (agentStatsColl d) \<and>
   users (updateAgentStats d a now) = users d \<and>
   transactions (updateAgentStats d a now) = transactions d \<and>
   dailyReports (updateAgentStats d a now) = dailyReports d"
proof -
  let ?f = "\<lambda>s. (commissionRate s, totalCommission s, commissionHistory s)"
  have f: "map ?f xs = map ?f (map unwritten xs)" for xs
    by (simp add: unwritten_def)
  have "map unwritten (agentStatsColl (updateAgentStats d a now)) = map unwritten (agentStatsColl d)"
    using updateAgentStats_writes[of d a now] by simp
  then have "map ?f (agentStatsColl (updateAgentStats d a now)) = map ?f (agentStatsColl d)"
    using f[of "agentStatsColl (updateAgentStats d a now)"] f[of "agentStatsColl d"] by simp
  then show ?thesis using updateAgentStats_writes[of d a now] by simp
qed

section \<open>The report scheduler: C6, C7, C9\<close>



text \<open>
  C7, as stated: a second run for the same day with the transaction log unchanged writes a
  report identical to the first. The report carries the time of its generation in
  \<^verbatim>\<open>systemNotes\<close>: two runs one second apart on 3 November 2026 write different reports.
\<close>

theorem daily_rerun_counterexample:
  "startOfDay 1793716245123 = startOfDay 1793716246123 \<and>
   transactions (fst (runDaily deducted_db 1793716245123)) = transactions deducted_db \<and>
   snd (runDaily (fst (runDaily deducted_db 1793716245123)) 1793716246123)
     \<noteq> snd (runDaily deducted_db 1793716245123)"
proof -
  have "systemNotes (snd (runDaily (fst (runDaily deducted_db 1793716245123)) 1793716246123))
     \<noteq> systemNotes (snd (runDaily deducted_db 1793716245123))"
    using toISOString_differs by (simp add: runDaily_report)
  then have "snd (runDaily (fst (runDaily deducted_db 1793716245123)) 1793716246123)
     \<noteq> snd (runDaily deducted_db 1793716245123)" by metis
  moreover have "startOfDay 1793716245123 = startOfDay 1793716246123"
    by (simp add: startOfDay_def msPerDay_def)
  ultimately show ?thesis using runDaily_frame[of deducted_db 1793716245123] by simp
qed

text \<open>
  C7, amended. When the stored daily reports have distinct dates (the unique index) and the
  daily run is run twice on the same day with nothing written in between, the store holds
  exactly one DailyReport for the reported date, the one of the second run, and that report
  equals the report of the first run in its date, all its totals and its per-agent
  sub-reports; only \<^verbatim>\<open>systemNotes\<close>, which carries the time of the run, is new.
\<close>

theorem daily_rerun_same_totals:
  assumes "distinct (map dr_date (dailyReports d))" and "startOfDay now1 = startOfDay now2"
  shows "filter (\<lambda>x. dr_date x = yesterday now1)
           (dailyReports (fst (runDaily (fst (runDaily d now1)) now2)))
           = [snd (runDaily (fst (runDaily d now1)) now2)] \<and>
         snd (runDaily (fst (runDaily d now1)) now2)
           = (snd (runDaily d now1))
               \<lparr>systemNotes := ''Auto-generated report by system at '' @ toISOString now2\<rparr>"
proof -
  let ?ags = "\<lambda>d. filter (\<lambda>u. role u = ''agent'') (users d)"
  let ?d1 = "fst (runDaily d now1)"
  let ?l1 = "fst (agentLoop (day_transactions d now1) now1 (?ags d) d [])"
  let ?l2 = "fst (agentLoop (day_transactions ?d1 now2) now2 (?ags ?d1) ?d1 [])"
  have y: "yesterday now1 = yesterday now2" using assms(2) by (simp add: yesterday_startOfDay)
  have fr: "users ?d1 = users d" "transactions ?d1 = transactions d"
    using runDaily_frame[of d now1] by simp_all
  have dt: "day_transactions ?d1 now2 = day_transactions d now1"
    by (simp add: day_transactions_def fr y assms(2))
  have lr: "loop_report ?d1 = loop_report d"
    by (intro ext loop_report_cong fr)
  have same: "snd (runDaily ?d1 now2)
           = (snd (runDaily d now1))
               \<lparr>systemNotes := ''Auto-generated report by system at '' @ toISOString now2\<rparr>"
    by (simp add: runDaily_report fr dt lr y)
  have "dailyReports ?l1 = dailyReports d" using agentLoop_frame by blast
  with assms(1) have "distinct (map dr_date (dailyReports ?l1))" by simp
  from upsert_exactly_one[OF this, of "snd (runDaily d now1)"]
  have "distinct (map dr_date (dailyReports ?d1))" by (simp add: runDaily_store[symmetric])
  moreover have "dailyReports ?l2 = dailyReports ?d1" using agentLoop_frame by blast
  ultimately have "distinct (map dr_date (dailyReports ?l2))" by simp
  from upsert_exactly_one[OF this, of "snd (runDaily ?d1 now2)"]
  have "filter (\<lambda>x. dr_date x = dr_date (snd (runDaily ?d1 now2)))
          (dailyReports (fst (runDaily ?d1 now2))) = [snd (runDaily ?d1 now2)]"
    by (simp add: runDaily_store[symmetric])
  moreover have "dr_date (snd (runDaily ?d1 now2)) = yesterday now1"
    by (simp add: runDaily_report y)
  ultimately show ?thesis using same by simp
qed

theorem daily_rerun_same_totals_witness:
  "filter (\<lambda>x. dr_date x = yesterday 1793716245123)
     (dailyReports (fst (runDaily (fst (runDaily deducted_db 1793716245123)) 1793716246123)))
     = [snd (runDaily (fst (runDaily deducted_db 1793716245123)) 1793716246123)] \<and>
   snd (runDaily (fst (runDaily deducted_db 1793716245123)) 1793716246123)
     = (snd (runDaily deducted_db 1793716245123))
         \<lparr>systemNotes := ''Auto-generated report by system at '' @ toISOString 1793716246123\<rparr>"
  by (rule daily_rerun_same_totals) (simp_all add: startOfDay_def msPerDay_def)



end
